theory Spec2Isabelle
  imports Complex_Main "HOL-Library.Log_Nat"
begin

section \<open>Python values\<close>

text \<open>
  A Python \<open>str\<close> is a sequence of Unicode code points; a code point is a natural number.
  ASCII literals of the source are written with \<open>ascii\<close>; literals with Chinese
  characters are written as lists of code points.
\<close>

type_synonym ustring = "nat list"

definition ascii :: "string \<Rightarrow> ustring" where
  "ascii s = map of_char s"

text \<open>Python floats: the finite doubles are rationals; the three special values are apart.\<close>

datatype pyfloat = Finite rat | PosInf | NegInf | NaN

text \<open>
  The values that \<open>json.loads\<close> and \<open>response.json()\<close> produce. A \<open>dict\<close> is an
  association list in insertion order.
\<close>

datatype json =
    JNone
  | JBool bool
  | JInt int
  | JFloat pyfloat
  | JStr ustring
  | JList "json list"
  | JDict "(ustring \<times> json) list"

datatype exc_kind =
    ValueError
  | ZeroDivisionError
  | KeyError
  | IndexError
  | TypeError
  | JSONDecodeError
  | HTTPError
  | AttributeError
  | ValidationError
  | OtherError

text \<open>An exception: its class and the text of \<open>str(e)\<close>.\<close>

datatype exn = Exn exc_kind ustring

fun str_exn :: "exn \<Rightarrow> ustring" where
  "str_exn (Exn k m) = m"

text \<open>\<open>d[key]\<close> for a string key, and \<open>xs[0]\<close>, on an arbitrary decoded value.\<close>

fun getitem_key :: "json \<Rightarrow> ustring \<Rightarrow> exn + json" where
  "getitem_key (JDict kvs) k =
     (case map_of kvs k of None \<Rightarrow> Inl (Exn KeyError k) | Some v \<Rightarrow> Inr v)"
| "getitem_key v k = Inl (Exn TypeError [])"

fun getitem_0 :: "json \<Rightarrow> exn + json" where
  "getitem_0 (JList xs) = (case xs of [] \<Rightarrow> Inl (Exn IndexError []) | x # _ \<Rightarrow> Inr x)"
| "getitem_0 (JStr s) = (case s of [] \<Rightarrow> Inl (Exn IndexError []) | c # _ \<Rightarrow> Inr (JStr [c]))"
| "getitem_0 (JDict kvs) = Inl (Exn KeyError [])"
| "getitem_0 v = Inl (Exn TypeError [])"

definition startswith :: "ustring \<Rightarrow> ustring \<Rightarrow> bool" where
  "startswith s p = (take (length p) s = p)"

section \<open>AIService (services/ai\_service.py)\<close>

text \<open>
  The collaborators of \<open>AIService\<close>: the configured DeepSeek key
  (\<open>Config.DEEPSEEK_API_KEY\<close>, \<open>None\<close> when the variable is unset), the OpenAI client
  (\<open>None\<close> when no key is configured; otherwise what
  \<open>chat.completions.create\<close> answers: the \<open>message.content\<close> of each choice, or an
  exception), and the HTTP transport used for DeepSeek.
\<close>

record http_response =
  raise_for_status :: "exn option"
  json_body :: "exn + json"

record chat_request =
  req_model :: ustring
  req_prompt :: ustring
  req_max_tokens :: int
  req_temperature :: pyfloat

record ai_env =
  DEEPSEEK_API_KEY :: "ustring option"
  openai_client :: "(chat_request \<Rightarrow> exn + json list) option"
  http_post :: "ustring \<Rightarrow> (ustring \<times> ustring) list \<Rightarrow> json \<Rightarrow> exn + http_response"

definition deepseek_key_missing_msg :: ustring where
  "deepseek_key_missing_msg = ascii ''DeepSeek API '' @ [23494, 38053, 26410, 37197, 32622]"

definition openai_client_missing_msg :: ustring where
  "openai_client_missing_msg = ascii ''OpenAI '' @ [23458, 25143, 31471, 26410, 21021, 22987, 21270]"

definition deepseek_url :: ustring where
  "deepseek_url = ascii ''https://api.deepseek.com/v1/chat/completions''"

definition deepseek_headers :: "ustring \<Rightarrow> (ustring \<times> ustring) list" where
  "deepseek_headers key =
     [(ascii ''Authorization'', ascii ''Bearer '' @ key),
      (ascii ''Content-Type'', ascii ''application/json'')]"

definition deepseek_data :: "ustring \<Rightarrow> int \<Rightarrow> pyfloat \<Rightarrow> json" where
  "deepseek_data prompt max_tokens temperature =
     JDict [(ascii ''model'', JStr (ascii ''deepseek-chat'')),
            (ascii ''messages'',
               JList [JDict [(ascii ''role'', JStr (ascii ''user'')),
                             (ascii ''content'', JStr prompt)]]),
            (ascii ''max_tokens'', JInt max_tokens),
            (ascii ''temperature'', JFloat temperature),
            (ascii ''stream'', JBool False)]"

text \<open>\<open>result["choices"][0]["message"]["content"]\<close>\<close>

definition choices_0_message_content :: "json \<Rightarrow> exn + json" where
  "choices_0_message_content result =
     (case getitem_key result (ascii ''choices'') of Inl e \<Rightarrow> Inl e
      | Inr a \<Rightarrow> (case getitem_0 a of Inl e \<Rightarrow> Inl e
      | Inr b \<Rightarrow> (case getitem_key b (ascii ''message'') of Inl e \<Rightarrow> Inl e
      | Inr c \<Rightarrow> getitem_key c (ascii ''content''))))"

definition generate_with_deepseek :: "ai_env \<Rightarrow> ustring \<Rightarrow> int \<Rightarrow> pyfloat \<Rightarrow> exn + json" where
  "generate_with_deepseek env prompt max_tokens temperature =
     (case DEEPSEEK_API_KEY env of
        None \<Rightarrow> Inl (Exn ValueError deepseek_key_missing_msg)
      | Some key \<Rightarrow>
          if key = [] then Inl (Exn ValueError deepseek_key_missing_msg)
          else (case http_post env deepseek_url (deepseek_headers key)
                       (deepseek_data prompt max_tokens temperature) of
                  Inl e \<Rightarrow> Inl e
                | Inr response \<Rightarrow>
                    (case raise_for_status response of
                       Some e \<Rightarrow> Inl e
                     | None \<Rightarrow>
                         (case json_body response of
                            Inl e \<Rightarrow> Inl e
                          | Inr result \<Rightarrow> choices_0_message_content result))))"

definition generate_with_openai ::
  "ai_env \<Rightarrow> ustring \<Rightarrow> ustring \<Rightarrow> int \<Rightarrow> pyfloat \<Rightarrow> exn + json" where
  "generate_with_openai env prompt model max_tokens temperature =
     (case openai_client env of
        None \<Rightarrow> Inl (Exn ValueError openai_client_missing_msg)
      | Some create \<Rightarrow>
          (case create \<lparr>req_model = model, req_prompt = prompt,
                        req_max_tokens = max_tokens, req_temperature = temperature\<rparr> of
             Inl e \<Rightarrow> Inl e
           | Inr choices \<Rightarrow>
               (case choices of [] \<Rightarrow> Inl (Exn IndexError []) | c # _ \<Rightarrow> Inr c)))"

text \<open>
  \<open>generate_text\<close>: the dispatch is on the model name alone. The handler logs and
  re-raises, so a failure of the chosen branch is the failure of the call.
\<close>

definition generate_text :: "ai_env \<Rightarrow> ustring \<Rightarrow> ustring \<Rightarrow> int \<Rightarrow> pyfloat \<Rightarrow> exn + json" where
  "generate_text env prompt model max_tokens temperature =
     (case (if model = ascii ''deepseek''
            then generate_with_deepseek env prompt max_tokens temperature
            else if startswith model (ascii ''gpt'')
            then generate_with_openai env prompt model max_tokens temperature
            else generate_with_deepseek env prompt max_tokens temperature) of
        Inl e \<Rightarrow> Inl e
      | Inr text \<Rightarrow> Inr text)"

text \<open>The defaults of \<open>generate_text\<close>: model "deepseek", 4000 tokens, temperature 0.7.\<close>

definition default_temperature :: pyfloat where
  "default_temperature = Finite (3152519739159347 / 4503599627370496)"


section \<open>Strings and floats of the Python runtime\<close>

text \<open>
  The character tables of the runtime are exact on ASCII. For the code points from 128
  on, which characters \<open>\w\<close> matches, which are whitespace and what \<open>str.lower\<close>
  maps them to are parameters: every theorem below holds for any such table. The
  lowercase form of a character may depend on the characters before and after it (the
  final sigma), so the table receives both. The CJK ideographs U+4E00 to U+9FFF are not
  whitespace and have no case.
\<close>

record unicode =
  uword :: "nat \<Rightarrow> bool"
  uspace :: "nat \<Rightarrow> bool"
  ulower :: "ustring \<Rightarrow> nat \<Rightarrow> ustring \<Rightarrow> ustring"

definition cjk :: "nat \<Rightarrow> bool" where
  "cjk c = (19968 \<le> c \<and> c \<le> 40959)"

definition ascii_space :: "nat \<Rightarrow> bool" where
  "ascii_space c = ((9 \<le> c \<and> c \<le> 13) \<or> (28 \<le> c \<and> c \<le> 32))"

definition is_space :: "unicode \<Rightarrow> nat \<Rightarrow> bool" where
  "is_space U c = (if c < 128 then ascii_space c else if cjk c then False else uspace U c)"

definition ascii_alnum :: "nat \<Rightarrow> bool" where
  "ascii_alnum c = ((48 \<le> c \<and> c \<le> 57) \<or> (65 \<le> c \<and> c \<le> 90) \<or> (97 \<le> c \<and> c \<le> 122))"

definition is_word :: "unicode \<Rightarrow> nat \<Rightarrow> bool" where
  "is_word U c = (if c < 128 then ascii_alnum c \<or> c = 95 else uword U c)"

definition lower_char :: "unicode \<Rightarrow> ustring \<Rightarrow> nat \<Rightarrow> ustring \<Rightarrow> ustring" where
  "lower_char U before c after =
     (if 65 \<le> c \<and> c \<le> 90 then [c + 32]
      else if c < 128 \<or> cjk c then [c]
      else ulower U before c after)"

fun lower_from :: "unicode \<Rightarrow> ustring \<Rightarrow> ustring \<Rightarrow> ustring" where
  "lower_from U before [] = []"
| "lower_from U before (c # cs) = lower_char U before c cs @ lower_from U (before @ [c]) cs"

text \<open>\<open>s.lower()\<close>\<close>

definition py_lower :: "unicode \<Rightarrow> ustring \<Rightarrow> ustring" where
  "py_lower U s = lower_from U [] s"


text \<open>\<open>re.sub(P+, r, s)\<close> for a character class \<open>P\<close>: every maximal run becomes \<open>r\<close>.\<close>

function sub_runs :: "(nat \<Rightarrow> bool) \<Rightarrow> ustring \<Rightarrow> ustring \<Rightarrow> ustring" where
  "sub_runs P r [] = []"
| "sub_runs P r (c # cs) =
     (if P c then r @ sub_runs P r (dropWhile P cs) else c # sub_runs P r cs)"
  by pat_completeness auto
termination
  by (relation "measure (\<lambda>(P, r, s). length s)")
     (auto simp: le_imp_less_Suc length_dropWhile_le)

text \<open>\<open>sep.join(parts)\<close>\<close>

fun join :: "ustring \<Rightarrow> ustring list \<Rightarrow> ustring" where
  "join sep [] = []"
| "join sep [x] = x"
| "join sep (x # y # ys) = x @ sep @ join sep (y # ys)"

text \<open>\<open>needle in haystack\<close>\<close>

fun contains :: "ustring \<Rightarrow> ustring \<Rightarrow> bool" where
  "contains [] needle = (needle = [])"
| "contains (c # cs) needle = (startswith (c # cs) needle \<or> contains cs needle)"


subsection \<open>Binary floating point\<close>

text \<open>
  A finite double is a rational. \<open>to_double\<close> rounds a rational to the nearest double,
  ties to the even significand (53 bits, least exponent \<open>-1022\<close>); the quotients and
  products of this program stay far below the overflow threshold. \<open>round_half_even\<close> is
  \<open>round(x)\<close> on the exact value of a float, \<open>round_1\<close> is \<open>round(x, 1)\<close>: the
  exact value is rounded to one decimal, ties to even, and the decimal is read back as a
  double.
\<close>

definition round_half_even :: "rat \<Rightarrow> int" where
  "round_half_even x =
     (let f = \<lfloor>x\<rfloor>; d = x - of_int f
      in if d < 1 / 2 then f else if 1 / 2 < d then f + 1 else if even f then f else f + 1)"

definition ilog2 :: "rat \<Rightarrow> int" where
  "ilog2 x =
     (let (p, q) = quotient_of x; e = bitlen p - bitlen q
      in if 2 powi e \<le> x then e else e - 1)"

definition to_double :: "rat \<Rightarrow> rat" where
  "to_double x =
     (if x = 0 then 0
      else let e = max (ilog2 \<bar>x\<bar>) (- 1022); u = 2 powi (e - 52)
           in sgn x * of_int (round_half_even (\<bar>x\<bar> / u)) * u)"

definition division_by_zero_msg :: ustring where
  "division_by_zero_msg = ascii ''division by zero''"

text \<open>\<open>a / b\<close> on two ints: the correctly rounded quotient, or \<open>ZeroDivisionError\<close>.\<close>

definition true_div :: "int \<Rightarrow> int \<Rightarrow> exn + rat" where
  "true_div a b =
     (if b = 0 then Inl (Exn ZeroDivisionError division_by_zero_msg)
      else Inr (to_double (of_int a / of_int b)))"

definition float_mul :: "rat \<Rightarrow> rat \<Rightarrow> rat" where
  "float_mul x y = to_double (x * y)"

definition round_1 :: "rat \<Rightarrow> rat" where
  "round_1 x = to_double (of_int (round_half_even (x * 10)) / 10)"

section \<open>ContentService (services/content\_service.py)\<close>

subsection \<open>Reading time\<close>




subsection \<open>Prompt builders\<close>


























subsection \<open>Response parsers\<close>

text \<open>
  \<open>json.loads\<close> is the standard library's decoder, a parameter here: for a string it
  returns the decoded value or raises. For a value that is not a string it raises
  \<open>TypeError\<close>. Each parser wraps the call in a bare \<open>except\<close>, so whatever the
  decoder raises, the parser returns its fallback.
\<close>

type_synonym decoder = "ustring \<Rightarrow> exn + json"

definition json_loads :: "decoder \<Rightarrow> json \<Rightarrow> exn + json" where
  "json_loads decode v = (case v of JStr s \<Rightarrow> decode s | _ \<Rightarrow> Inl (Exn TypeError []))"

definition content_fallback :: "json \<Rightarrow> json" where
  "content_fallback response =
     JDict [(ascii ''title'', JStr [29983, 25104, 30340, 21338, 25991]),
            (ascii ''summary'', JStr [21338, 25991, 25688, 35201]),
            (ascii ''content'', response)]"

definition parse_content_response :: "decoder \<Rightarrow> json \<Rightarrow> exn + json" where
  "parse_content_response decode response =
     (case json_loads decode response of
        Inr v \<Rightarrow> Inr v
      | Inl e \<Rightarrow> Inr (content_fallback response))"

definition optimization_fallback :: "json \<Rightarrow> json" where
  "optimization_fallback response =
     JDict [(ascii ''content'', response),
            (ascii ''improvements'', JList [JStr [20869, 23481, 24050, 20248, 21270]]),
            (ascii ''seo_score'', JInt 8),
            (ascii ''readability_score'', JInt 8)]"

definition parse_optimization_response :: "decoder \<Rightarrow> json \<Rightarrow> exn + json" where
  "parse_optimization_response decode response =
     (case json_loads decode response of
        Inr v \<Rightarrow> Inr v
      | Inl e \<Rightarrow> Inr (optimization_fallback response))"

definition outline_fallback :: json where
  "outline_fallback =
     JDict [(ascii ''structure'',
               JList [JDict [(ascii ''title'', JStr [20027, 35201, 20869, 23481]),
                             (ascii ''description'', JStr [22823, 32434, 20869, 23481]),
                             (ascii ''subsections'', JList [])]]),
            (ascii ''estimated_length'', JStr (ascii ''2000'' @ [23383])),
            (ascii ''key_points'', JList [JStr [35201, 28857, 49], JStr [35201, 28857, 50]]),
            (ascii ''resources'', JList [])]"

definition parse_outline_response :: "decoder \<Rightarrow> json \<Rightarrow> exn + json" where
  "parse_outline_response decode response =
     (case json_loads decode response of
        Inr v \<Rightarrow> Inr v
      | Inl e \<Rightarrow> Inr outline_fallback)"

definition analysis_fallback :: json where
  "analysis_fallback =
     JDict [(ascii ''seo_score'', JInt 7),
            (ascii ''readability_score'', JInt 7),
            (ascii ''engagement_potential'', JInt 7),
            (ascii ''suggestions'',
               JList [JStr [22686, 21152, 23567, 26631, 39064],
                      JStr [28155, 21152, 20195, 30721, 31034, 20363]])]"

definition parse_analysis_response :: "decoder \<Rightarrow> json \<Rightarrow> exn + json" where
  "parse_analysis_response decode response =
     (case json_loads decode response of
        Inr v \<Rightarrow> Inr v
      | Inl e \<Rightarrow> Inr analysis_fallback)"

subsection \<open>Pipeline operations\<close>







section \<open>Batch image generation (media\_server.py)\<close>

text \<open>
  What one pass of the inner \<open>try\<close> does for the item at position \<open>i\<close> (counted from
  0): building the request and awaiting \<open>generate_image\<close> either returns a \<open>dict\<close> or
  raises. Both depend on the providers and the network, so the call is a parameter. The
  pause between two items changes no value and is left out.
\<close>

type_synonym item_call = "nat \<Rightarrow> ustring \<Rightarrow> ustring \<Rightarrow> exn + (ustring \<times> json) list"

record batch_state =
  results :: "json list"
  failed_count :: int

definition error_dict :: "exn \<Rightarrow> json" where
  "error_dict e = JDict [(ascii ''error'', JStr (str_exn e))]"

definition result_entry :: "nat \<Rightarrow> ustring \<Rightarrow> json \<Rightarrow> json" where
  "result_entry i prompt result =
     JDict [(ascii ''index'', JInt (int i + 1)),
            (ascii ''prompt'', JStr prompt),
            (ascii ''result'', result)]"

definition has_error :: "(ustring \<times> json) list \<Rightarrow> bool" where
  "has_error result = (ascii ''error'' \<in> set (map fst result))"

definition batch_step :: "item_call \<Rightarrow> ustring \<Rightarrow> nat \<Rightarrow> ustring \<Rightarrow> batch_state \<Rightarrow> batch_state" where
  "batch_step call style i prompt st =
     (case call i prompt style of
        Inr result \<Rightarrow>
          \<lparr>results = results st @ [result_entry i prompt (JDict result)],
           failed_count = (if has_error result then failed_count st + 1 else failed_count st)\<rparr>
      | Inl e \<Rightarrow>
          \<lparr>results = results st @ [result_entry i prompt (error_dict e)],
           failed_count = failed_count st + 1\<rparr>)"

fun batch_loop :: "item_call \<Rightarrow> ustring \<Rightarrow> nat \<Rightarrow> ustring list \<Rightarrow> batch_state \<Rightarrow> batch_state" where
  "batch_loop call style i [] st = st"
| "batch_loop call style i (prompt # rest) st =
     batch_loop call style (Suc i) rest (batch_step call style i prompt st)"

text \<open>
  The summary is built after the loop; its \<open>success_rate\<close> divides by the number of
  prompts. The outer handler turns whatever the body raises into an error \<open>dict\<close>.
  \<open>now\<close> is the text of \<open>datetime.now().isoformat()\<close>.
\<close>

definition batch_summary :: "ustring \<Rightarrow> ustring list \<Rightarrow> batch_state \<Rightarrow> exn + json" where
  "batch_summary now prompts st =
     (let n = int (length prompts)
      in case true_div (n - failed_count st) n of
           Inl e \<Rightarrow> Inl e
         | Inr ratio \<Rightarrow>
             Inr (JDict [(ascii ''total_count'', JInt n),
                         (ascii ''success_count'', JInt (n - failed_count st)),
                         (ascii ''failed_count'', JInt (failed_count st)),
                         (ascii ''success_rate'',
                            JFloat (Finite (round_1 (float_mul ratio 100)))),
                         (ascii ''results'', JList (results st)),
                         (ascii ''generated_at'', JStr now)]))"

definition batch_generate_images ::
  "item_call \<Rightarrow> ustring \<Rightarrow> ustring list \<Rightarrow> ustring \<Rightarrow> exn + json" where
  "batch_generate_images call now prompts style =
     (case batch_summary now prompts
             (batch_loop call style 0 prompts \<lparr>results = [], failed_count = 0\<rparr>) of
        Inr summary \<Rightarrow> Inr summary
      | Inl e \<Rightarrow> Inr (error_dict e))"

text \<open>What the slot of item \<open>i\<close> holds, and whether the item counts as failed.\<close>

definition item_outcome :: "item_call \<Rightarrow> ustring \<Rightarrow> nat \<Rightarrow> ustring \<Rightarrow> json" where
  "item_outcome call style i prompt =
     (case call i prompt style of Inr result \<Rightarrow> JDict result | Inl e \<Rightarrow> error_dict e)"

definition item_failed :: "item_call \<Rightarrow> ustring \<Rightarrow> nat \<Rightarrow> ustring \<Rightarrow> bool" where
  "item_failed call style i prompt =
     (case call i prompt style of Inr result \<Rightarrow> has_error result | Inl e \<Rightarrow> True)"

section \<open>ZolaUtils.generate\_slug (utils/zola\_utils.py)\<close>

text \<open>\<open>datetime.now()\<close> and \<open>strftime('%Y%m%d')\<close>: decimal digits, zero padded.\<close>

record date =
  year :: nat
  month :: nat
  day :: nat

function decimal :: "nat \<Rightarrow> ustring" where
  "decimal n = (if n < 10 then [48 + n] else decimal (n div 10) @ [48 + n mod 10])"
  by pat_completeness auto
termination
  by (relation "measure (\<lambda>n. n)") auto

definition zero_pad :: "nat \<Rightarrow> ustring \<Rightarrow> ustring" where
  "zero_pad w s = replicate (w - length s) 48 @ s"

definition strftime_Ymd :: "date \<Rightarrow> ustring" where
  "strftime_Ymd d =
     zero_pad 4 (decimal (year d)) @ zero_pad 2 (decimal (month d)) @ zero_pad 2 (decimal (day d))"

text \<open>The keyword table of \<open>_chinese_to_slug\<close>, in the order of the \<open>dict\<close> literal.\<close>

definition keyword_map :: "(ustring \<times> ustring) list" where
  "keyword_map =
     [([65, 73], ascii ''ai''),
      ([20154, 24037, 26234, 33021], ascii ''artificial-intelligence''),
      ([26426, 22120, 23398, 20064], ascii ''machine-learning''),
      ([28145, 24230, 23398, 20064], ascii ''deep-learning''),
      ([21338, 23458], ascii ''blog''),
      ([25945, 31243], ascii ''tutorial''),
      ([25351, 21335], ascii ''guide''),
      ([23454, 36341], ascii ''practice''),
      ([25216, 26415], ascii ''technology''),
      ([24320, 21457], ascii ''development''),
      ([32534, 31243], ascii ''programming''),
      ([20195, 30721], ascii ''code''),
      ([39033, 30446], ascii ''project''),
      ([24037, 20855], ascii ''tools''),
      ([26694, 26550], ascii ''framework''),
      ([37096, 32626], ascii ''deployment''),
      ([20248, 21270], ascii ''optimization''),
      ([20998, 26512], ascii ''analysis''),
      ([35774, 35745], ascii ''design''),
      ([23458, 26632], ascii ''guesthouse''),
      ([20029, 27743], ascii ''lijiang'')]"

definition chinese_to_slug :: "date \<Rightarrow> ustring \<Rightarrow> ustring" where
  "chinese_to_slug now title =
     (let slug_parts =
            map snd (filter (\<lambda>(keyword, english). contains title keyword) keyword_map)
      in if slug_parts = [] then ascii ''post-'' @ strftime_Ymd now
         else join [45] (take 3 slug_parts))"

text \<open>
  The first substitution removes every character outside the class of word characters,
  whitespace, the hyphen and the range U+4E00 to U+9FFF.
\<close>

definition kept :: "unicode \<Rightarrow> nat \<Rightarrow> bool" where
  "kept U c = (is_word U c \<or> is_space U c \<or> c = 45 \<or> cjk c)"

text \<open>\<open>slug.strip('-')\<close>\<close>

definition strip_hyphens :: "ustring \<Rightarrow> ustring" where
  "strip_hyphens s = rev (dropWhile (\<lambda>c. c = 45) (rev (dropWhile (\<lambda>c. c = 45) s)))"

text \<open>
  The test for a purely Chinese slug, \<open>re.match\<close> of one or more ideographs (U+4E00 to
  U+9FFF) or hyphens up to the end of the string; \<open>$\<close> also matches before a final
  newline.
\<close>

definition chinese_match :: "ustring \<Rightarrow> bool" where
  "chinese_match s =
     (let body = (if s \<noteq> [] \<and> last s = 10 then butlast s else s)
      in body \<noteq> [] \<and> list_all (\<lambda>c. cjk c \<or> c = 45) body)"

definition normalize_title :: "unicode \<Rightarrow> ustring \<Rightarrow> ustring" where
  "normalize_title U title =
     (let slug = filter (kept U) title;
          slug = sub_runs (is_space U) [45] slug;
          slug = py_lower U slug;
          slug = sub_runs (\<lambda>c. c = 45) [45] slug
      in strip_hyphens slug)"

definition generate_slug :: "unicode \<Rightarrow> date \<Rightarrow> ustring \<Rightarrow> ustring" where
  "generate_slug U now title =
     (let slug = normalize_title U title
      in if chinese_match slug then chinese_to_slug now title else slug)"

text \<open>
  The shape the specification asks of a slug: not empty, only ASCII lowercase letters,
  digits and hyphens, no hyphen at either end, no two hyphens in a row.
\<close>

definition slug_char :: "nat \<Rightarrow> bool" where
  "slug_char c = ((97 \<le> c \<and> c \<le> 122) \<or> (48 \<le> c \<and> c \<le> 57) \<or> c = 45)"

fun single_hyphens :: "ustring \<Rightarrow> bool" where
  "single_hyphens (a # b # cs) = (\<not> (a = 45 \<and> b = 45) \<and> single_hyphens (b # cs))"
| "single_hyphens cs = True"

definition trimmed :: "ustring \<Rightarrow> bool" where
  "trimmed s = (s = [] \<or> (hd s \<noteq> 45 \<and> last s \<noteq> 45))"

definition is_slug :: "ustring \<Rightarrow> bool" where
  "is_slug s = (s \<noteq> [] \<and> list_all slug_char s \<and> trimmed s \<and> single_hyphens s)"

section \<open>The specification's reading-time formula\<close>

text \<open>
  The formula in the words of the specification: the token count divided by 200,
  rounded up to the next whole minute, and at least 1.
\<close>

definition reading_time_rounded_up :: "int \<Rightarrow> int" where
  "reading_time_rounded_up word_count = max 1 \<lceil>(of_int word_count :: rat) / 200\<rceil>"

text \<open>A fixture: a text of 201 words.\<close>

definition words_201 :: ustring where
  "words_201 = concat (replicate 201 (ascii ''a ''))"

text \<open>
  A fixture: no DeepSeek key, and an OpenAI client that answers every request with one
  choice whose content is "ok".
\<close>

definition only_openai_env :: ai_env where
  "only_openai_env =
     \<lparr>DEEPSEEK_API_KEY = None,
      openai_client = Some (\<lambda>r. Inr [JStr (ascii ''ok'')]),
      http_post = (\<lambda>url hs body. Inl (Exn OtherError []))\<rparr>"

text \<open>
  A fixture: a DeepSeek key and a transport that answers with a well-formed completion
  whose content echoes the prompt it was sent; no OpenAI client.
\<close>

definition echo_body :: "json \<Rightarrow> json" where
  "echo_body data =
     JDict [(ascii ''choices'',
       JList [JDict [(ascii ''message'',
         JDict [(ascii ''content'',
           (case choices_0_message_content
                   (JDict [(ascii ''choices'',
                      (case getitem_key data (ascii ''messages'') of
                         Inr (JList (m # ms)) \<Rightarrow> JList [JDict [(ascii ''message'', m)]]
                       | _ \<Rightarrow> JList []))]) of
              Inr c \<Rightarrow> c | Inl e \<Rightarrow> JNone))])]])]"

definition only_deepseek_env :: ai_env where
  "only_deepseek_env =
     \<lparr>DEEPSEEK_API_KEY = Some (ascii ''sk-test''),
      openai_client = None,
      http_post = (\<lambda>url hs body.
         Inr \<lparr>raise_for_status = None, json_body = Inr (echo_body body)\<rparr>)\<rparr>"


text \<open>
  A fixture for the decoder, which agrees with \<open>json.loads\<close> on the two inputs used
  below: the text \<open>{}\<close> decodes to the empty \<open>dict\<close>, the text \<open>not json\<close> is
  rejected. It rejects every other text as well.
\<close>

definition braces_decoder :: decoder where
  "braces_decoder s =
     (if s = ascii ''{}'' then Inr (JDict []) else Inl (Exn JSONDecodeError []))"

text \<open>
  A fixture for the per-item call: the second item (position 1) raises, every other
  item returns an image.
\<close>

definition second_raises :: item_call where
  "second_raises i prompt style =
     (if i = 1 then Inl (Exn ValueError (ascii ''boom''))
      else Inr [(ascii ''image_url'', JStr prompt)])"

definition three_prompts :: "ustring list" where
  "three_prompts = [ascii ''cat'', ascii ''dog'', ascii ''owl'']"

definition some_date :: date where
  "some_date = \<lparr>year = 2024, month = 3, day = 9\<rparr>"

section \<open>Rounding to a double\<close>

lemma ilog2_lower:
  assumes "0 < x"
  shows "2 powi (ilog2 x) \<le> x"
proof -
  obtain p q where pq: "quotient_of x = (p, q)"
    by (cases "quotient_of x")
  have q: "0 < q"
    using pq by (rule quotient_of_denom_pos)
  have x: "x = of_int p / of_int q"
    using pq by (rule quotient_of_div)
  have p: "0 < p"
    using assms q x by (simp add: zero_less_divide_iff)
  have bp: "1 \<le> bitlen p" and bq: "1 \<le> bitlen q"
    using p q by (simp_all add: bitlen_alt_def)
  have lo: "(2::rat) ^ nat (bitlen p - 1) \<le> of_int p"
  proof -
    have "(2::int) ^ nat (bitlen p - 1) \<le> p"
      using bitlen_bounds [OF p] by simp
    then have "of_int ((2::int) ^ nat (bitlen p - 1)) \<le> (of_int p :: rat)"
      by (simp only: of_int_le_iff)
    then show ?thesis by simp
  qed
  have hi: "of_int q \<le> (2::rat) ^ nat (bitlen q)"
  proof -
    have "q < (2::int) ^ nat (bitlen q)"
      using bitlen_bounds [OF q] by simp
    then have "(of_int q :: rat) < of_int ((2::int) ^ nat (bitlen q))"
      by (simp only: of_int_less_iff)
    then show ?thesis by simp
  qed
  have "(2::rat) powi (bitlen p - bitlen q - 1) =
          2 powi (bitlen p - 1) / 2 powi (bitlen q)"
    by (simp add: power_int_diff)
  also have "\<dots> = 2 ^ nat (bitlen p - 1) / 2 ^ nat (bitlen q)"
    using bp bq by (simp add: power_int_def)
  also have "\<dots> \<le> of_int p / of_int q"
    using lo hi p q by (intro frac_le) simp_all
  finally have low: "(2::rat) powi (bitlen p - bitlen q - 1) \<le> x"
    using x by simp
  show ?thesis
    using low by (simp add: ilog2_def pq Let_def)
qed

lemma ilog2_less:
  assumes "0 < x" and "x < 2 powi k"
  shows "ilog2 x < k"
proof (rule ccontr)
  assume "\<not> ilog2 x < k"
  then have "k \<le> ilog2 x" by simp
  then have "(2::rat) powi k \<le> 2 powi (ilog2 x)"
    by (intro power_int_increasing) simp_all
  also have "\<dots> \<le> x"
    using assms(1) by (rule ilog2_lower)
  finally show False
    using assms(2) by simp
qed

lemma round_half_even_error: "\<bar>of_int (round_half_even y) - y\<bar> \<le> 1 / 2"
proof -
  have "of_int \<lfloor>y\<rfloor> \<le> y" and "y < of_int \<lfloor>y\<rfloor> + 1"
    by linarith+
  then show ?thesis
    by (auto simp: round_half_even_def Let_def)
qed

lemma round_half_even_unique:
  assumes "of_int k - 1 / 2 < y" and "y < of_int k + 1 / 2"
  shows "round_half_even y = k"
proof -
  have "\<bar>(of_int (round_half_even y) :: rat) - of_int k\<bar> < 1"
    using round_half_even_error [of y] assms by linarith
  then have "\<bar>(of_int (round_half_even y - k) :: rat)\<bar> < 1"
    by simp
  then have "\<bar>round_half_even y - k\<bar> < 1"
    by (metis of_int_abs of_int_less_1_iff)
  then show ?thesis by simp
qed

lemma round_half_even_of_int: "round_half_even (of_int i) = i"
  by (rule round_half_even_unique) simp_all

lemma to_double_pos:
  assumes "0 < x"
  shows "to_double x =
     of_int (round_half_even (x / 2 powi (max (ilog2 x) (- 1022) - 52)))
       * 2 powi (max (ilog2 x) (- 1022) - 52)"
  using assms by (simp add: to_double_def Let_def)

lemma to_double_error:
  assumes "0 < x" and "x < 2 powi k" and "- 1022 < k"
  shows "\<bar>to_double x - x\<bar> \<le> 2 powi (k - 54)"
proof -
  define e where "e = max (ilog2 x) (- 1022)"
  define u :: rat where "u = 2 powi (e - 52)"
  have e: "e \<le> k - 1"
    using ilog2_less [OF assms(1,2)] assms(3) by (simp add: e_def)
  have u: "0 < u"
    by (simp add: u_def)
  have td: "to_double x = of_int (round_half_even (x / u)) * u"
    using to_double_pos [OF assms(1)] by (simp add: e_def u_def)
  have "to_double x - x = (of_int (round_half_even (x / u)) - x / u) * u"
    using u by (simp add: td left_diff_distrib)
  then have "\<bar>to_double x - x\<bar> = \<bar>of_int (round_half_even (x / u)) - x / u\<bar> * u"
    using u by (simp add: abs_mult)
  also have "\<dots> \<le> 1 / 2 * u"
    using u round_half_even_error [of "x / u"] by (intro mult_right_mono) simp_all
  also have "\<dots> = 2 powi (e - 53)"
    by (simp add: u_def power_int_diff)
  also have "\<dots> \<le> 2 powi (k - 54)"
    using e by (intro power_int_increasing) simp_all
  finally show ?thesis .
qed

lemma to_double_half_integer:
  assumes "0 < m" and "of_int m / 2 < (2::rat) powi 52"
  shows "to_double (of_int m / 2) = of_int m / 2"
proof -
  define x :: rat where "x = of_int m / 2"
  define e where "e = max (ilog2 x) (- 1022)"
  have x: "0 < x"
    using assms(1) by (simp add: x_def)
  have e: "e \<le> 51"
    using ilog2_less [OF x, of 52] assms(2) by (simp add: e_def x_def)
  define d where "d = nat (51 - e)"
  have u: "(2::rat) powi (e - 52) = 1 / (2 * 2 ^ d)"
  proof -
    have "e - 52 = - int (Suc d)"
      using e by (simp add: d_def)
    then have "(2::rat) powi (e - 52) = 2 powi (- int (Suc d))"
      by (simp only:)
    also have "\<dots> = inverse (2 powi int (Suc d))"
      by (rule power_int_minus)
    also have "\<dots> = 1 / (2 * 2 ^ d)"
      by (simp only: power_int_of_nat power_Suc inverse_eq_divide)
    finally show ?thesis .
  qed
  have "x / (2 powi (e - 52)) = of_int (m * 2 ^ d)"
    by (simp add: u x_def)
  then have "round_half_even (x / (2 powi (e - 52))) = m * 2 ^ d"
    by (simp only: round_half_even_of_int)
  then have "to_double x = of_int (m * 2 ^ d) * (1 / (2 * 2 ^ d))"
    using to_double_pos [OF x] by (simp add: e_def [symmetric] u)
  also have "\<dots> = x"
    by (simp add: x_def)
  finally show ?thesis
    by (simp add: x_def)
qed

section \<open>Provider dispatch\<close>

lemma generate_text_dispatch:
  "generate_text env prompt model max_tokens temperature =
     (if model \<noteq> ascii ''deepseek'' \<and> startswith model (ascii ''gpt'')
      then generate_with_openai env prompt model max_tokens temperature
      else generate_with_deepseek env prompt max_tokens temperature)"
  by (simp add: generate_text_def split: sum.splits)

lemma deepseek_not_gpt: "\<not> startswith (ascii ''deepseek'') (ascii ''gpt'')"
  by (simp add: startswith_def ascii_def)

text \<open>
  C10. For every model name that is neither "deepseek" nor a string starting with "gpt",
  \<open>generate_text\<close> gives the request to the DeepSeek backend and returns what an explicit
  request for model "deepseek" returns, for the same prompt, token limit and temperature.
\<close>

theorem generate_text_unknown_model_is_deepseek:
  assumes "model \<noteq> ascii ''deepseek''" and "\<not> startswith model (ascii ''gpt'')"
  shows "generate_text env prompt model max_tokens temperature =
           generate_with_deepseek env prompt max_tokens temperature
       \<and> generate_text env prompt model max_tokens temperature =
           generate_text env prompt (ascii ''deepseek'') max_tokens temperature"
  using assms by (simp add: generate_text_dispatch)

theorem generate_text_unknown_model_is_deepseek_witness:
  "ascii ''llama'' \<noteq> ascii ''deepseek'' \<and> \<not> startswith (ascii ''llama'') (ascii ''gpt'')
   \<and> generate_text only_deepseek_env (ascii ''hi'') (ascii ''llama'') 10 default_temperature =
       generate_text only_deepseek_env (ascii ''hi'') (ascii ''deepseek'') 10 default_temperature
   \<and> generate_text only_deepseek_env (ascii ''hi'') (ascii ''llama'') 10 default_temperature =
       Inr (JStr (ascii ''hi''))"
proof -
  have a: "ascii ''llama'' \<noteq> ascii ''deepseek''"
    by (simp add: ascii_def)
  have b: "\<not> startswith (ascii ''llama'') (ascii ''gpt'')"
    by (simp add: startswith_def ascii_def)
  have c: "generate_with_deepseek only_deepseek_env (ascii ''hi'') 10 default_temperature =
             Inr (JStr (ascii ''hi''))"
    by (simp add: generate_with_deepseek_def only_deepseek_env_def echo_body_def
        deepseek_data_def choices_0_message_content_def ascii_def)
  note d = generate_text_unknown_model_is_deepseek [OF a b, of only_deepseek_env "ascii ''hi''" 10
      default_temperature]
  from d have e: "generate_text only_deepseek_env (ascii ''hi'') (ascii ''llama'') 10
      default_temperature = Inr (JStr (ascii ''hi''))"
    using c by simp
  from a b d e show ?thesis by blast
qed

lemma generate_with_deepseek_no_key:
  "DEEPSEEK_API_KEY env = None \<or> DEEPSEEK_API_KEY env = Some [] \<Longrightarrow>
   generate_with_deepseek env prompt max_tokens temperature =
     Inl (Exn ValueError deepseek_key_missing_msg)"
  by (auto simp: generate_with_deepseek_def)

lemma generate_with_openai_no_client:
  "openai_client env = None \<Longrightarrow>
   generate_with_openai env prompt model max_tokens temperature =
     Inl (Exn ValueError openai_client_missing_msg)"
  by (simp add: generate_with_openai_def)

lemma generate_with_deepseek_ignores_openai:
  "generate_with_deepseek (env\<lparr>openai_client := c\<rparr>) prompt max_tokens temperature =
   generate_with_deepseek env prompt max_tokens temperature"
  by (simp add: generate_with_deepseek_def split: option.splits)

lemma generate_with_openai_ignores_deepseek:
  "generate_with_openai (env\<lparr>DEEPSEEK_API_KEY := k\<rparr>) prompt model max_tokens temperature =
   generate_with_openai env prompt model max_tokens temperature"
  by (simp add: generate_with_openai_def split: option.splits)

text \<open>
  C6, as stated, fails. With no DeepSeek key and a working OpenAI client, a request for
  the model "deepseek" is not passed to the configured provider: it fails with
  \<open>ValueError\<close>, although the same service answers a request for "gpt-4".
\<close>

theorem generate_text_no_fallback_counterexample:
  "generate_text only_openai_env (ascii ''hi'') (ascii ''deepseek'') 4000 default_temperature =
     Inl (Exn ValueError deepseek_key_missing_msg)
   \<and> generate_text only_openai_env (ascii ''hi'') (ascii ''gpt-4'') 4000 default_temperature =
     Inr (JStr (ascii ''ok''))"
  by (simp add: generate_text_dispatch generate_with_deepseek_def generate_with_openai_def
      only_openai_env_def startswith_def ascii_def)

text \<open>
  C6, amended. \<open>generate_text\<close> selects the provider by the model name alone: a name
  other than "deepseek" that starts with "gpt" goes to the OpenAI client, every other
  name goes to DeepSeek. The configuration of the other provider has no influence, and
  the call fails with \<open>ValueError\<close> whenever the provider selected by name is not
  configured.
\<close>

theorem generate_text_selects_by_name:
  "(model = ascii ''deepseek'' \<or> \<not> startswith model (ascii ''gpt'') \<longrightarrow>
      generate_text env prompt model max_tokens temperature =
        generate_with_deepseek env prompt max_tokens temperature
      \<and> generate_text (env\<lparr>openai_client := c\<rparr>) prompt model max_tokens temperature =
        generate_text env prompt model max_tokens temperature
      \<and> (DEEPSEEK_API_KEY env = None \<or> DEEPSEEK_API_KEY env = Some [] \<longrightarrow>
           generate_text env prompt model max_tokens temperature =
             Inl (Exn ValueError deepseek_key_missing_msg)))
   \<and> (model \<noteq> ascii ''deepseek'' \<and> startswith model (ascii ''gpt'') \<longrightarrow>
      generate_text env prompt model max_tokens temperature =
        generate_with_openai env prompt model max_tokens temperature
      \<and> generate_text (env\<lparr>DEEPSEEK_API_KEY := k\<rparr>) prompt model max_tokens temperature =
        generate_text env prompt model max_tokens temperature
      \<and> (openai_client env = None \<longrightarrow>
           generate_text env prompt model max_tokens temperature =
             Inl (Exn ValueError openai_client_missing_msg)))"
  by (auto simp: generate_text_dispatch generate_with_deepseek_ignores_openai
      generate_with_openai_ignores_deepseek generate_with_deepseek_no_key
      generate_with_openai_no_client)

theorem generate_text_selects_by_name_witness:
  "DEEPSEEK_API_KEY only_openai_env = None
   \<and> generate_text only_openai_env (ascii ''hi'') (ascii ''deepseek'') 4000 default_temperature =
       Inl (Exn ValueError deepseek_key_missing_msg)
   \<and> ascii ''gpt-4'' \<noteq> ascii ''deepseek'' \<and> startswith (ascii ''gpt-4'') (ascii ''gpt'')
   \<and> openai_client only_deepseek_env = None
   \<and> generate_text only_deepseek_env (ascii ''hi'') (ascii ''gpt-4'') 4000 default_temperature =
       Inl (Exn ValueError openai_client_missing_msg)"
proof -
  have a: "DEEPSEEK_API_KEY only_openai_env = None"
    by (simp add: only_openai_env_def)
  have b: "ascii ''gpt-4'' \<noteq> ascii ''deepseek''"
    by (simp add: ascii_def)
  have c: "startswith (ascii ''gpt-4'') (ascii ''gpt'')"
    by (simp add: startswith_def ascii_def)
  have d: "openai_client only_deepseek_env = None"
    by (simp add: only_deepseek_env_def)
  from generate_text_selects_by_name
    [of "ascii ''deepseek''" only_openai_env "ascii ''hi''" 4000 default_temperature] a
  have e: "generate_text only_openai_env (ascii ''hi'') (ascii ''deepseek'') 4000
      default_temperature = Inl (Exn ValueError deepseek_key_missing_msg)"
    by blast
  from generate_text_selects_by_name
    [of "ascii ''gpt-4''" only_deepseek_env "ascii ''hi''" 4000 default_temperature] b c d
  have f: "generate_text only_deepseek_env (ascii ''hi'') (ascii ''gpt-4'') 4000
      default_temperature = Inl (Exn ValueError openai_client_missing_msg)"
    by blast
  from a b c d e f show ?thesis by blast
qed

section \<open>The batch loop\<close>

lemma batch_loop_eq:
  "batch_loop call style i prompts st =
     \<lparr>results = results st @
        map (\<lambda>(j, p). result_entry j p (item_outcome call style j p)) (enumerate i prompts),
      failed_count = failed_count st +
        int (length (filter (\<lambda>(j, p). item_failed call style j p) (enumerate i prompts)))\<rparr>"
proof (induction prompts arbitrary: i st)
  case Nil
  then show ?case by simp
next
  case (Cons p ps)
  show ?case
    by (cases "call i p style")
       (simp_all add: Cons.IH batch_step_def item_outcome_def item_failed_def)
qed

lemma enumerate_as_map: "enumerate 0 xs = map (\<lambda>i. (i, xs ! i)) [0..<length xs]"
  by (rule nth_equalityI) (simp_all add: nth_enumerate_eq)

lemma failed_items_as_indices:
  "length (filter (\<lambda>(j, p). item_failed call style j p) (enumerate 0 prompts)) =
   length (filter (\<lambda>i. item_failed call style i (prompts ! i)) [0..<length prompts])"
  by (simp add: enumerate_as_map filter_map comp_def)

lemma batch_loop_from_start:
  "batch_loop call style 0 prompts \<lparr>results = [], failed_count = 0\<rparr> =
     \<lparr>results = map (\<lambda>i. result_entry i (prompts ! i) (item_outcome call style i (prompts ! i)))
                   [0..<length prompts],
      failed_count =
        int (length (filter (\<lambda>i. item_failed call style i (prompts ! i)) [0..<length prompts]))\<rparr>"
  by (simp add: batch_loop_eq failed_items_as_indices) (simp add: enumerate_as_map comp_def)

lemma failed_at_most_total:
  "int (length (filter (\<lambda>i. item_failed call style i (prompts ! i)) [0..<length prompts]))
     \<le> int (length prompts)"
  using length_filter_le [of "\<lambda>i. item_failed call style i (prompts ! i)" "[0..<length prompts]"]
  by simp

lemma batch_generate_images_nonempty:
  assumes "prompts \<noteq> []"
  shows "batch_generate_images call now prompts style =
     (let st = batch_loop call style 0 prompts \<lparr>results = [], failed_count = 0\<rparr>;
          n = int (length prompts)
      in Inr (JDict [(ascii ''total_count'', JInt n),
                     (ascii ''success_count'', JInt (n - failed_count st)),
                     (ascii ''failed_count'', JInt (failed_count st)),
                     (ascii ''success_rate'',
                        JFloat (Finite (round_1 (float_mul
                          (to_double (of_int (n - failed_count st) / of_int n)) 100)))),
                     (ascii ''results'', JList (results st)),
                     (ascii ''generated_at'', JStr now)]))"
  using assms by (simp add: batch_generate_images_def batch_summary_def true_div_def Let_def)

text \<open>
  C9. Called with an empty list of prompts, the batch runner does not raise and returns
  no summary: the division for the success rate raises \<open>ZeroDivisionError\<close>, the outer
  handler catches it, and the result is the \<open>dict\<close> that carries only the error message.
\<close>

theorem batch_generate_images_empty:
  "batch_generate_images call now [] style =
     Inr (JDict [(ascii ''error'', JStr (ascii ''division by zero''))])
   \<and> batch_summary now [] \<lparr>results = [], failed_count = 0\<rparr> =
     Inl (Exn ZeroDivisionError (ascii ''division by zero''))"
  by (simp add: batch_generate_images_def batch_summary_def true_div_def error_dict_def
      division_by_zero_msg_def)

lemma slot_contents:
  "(\<forall>k m. call i prompt style = Inl (Exn k m) \<longrightarrow>
      result_entry i prompt (item_outcome call style i prompt) =
        JDict [(ascii ''index'', JInt (int i + 1)),
               (ascii ''prompt'', JStr prompt),
               (ascii ''result'', JDict [(ascii ''error'', JStr m)])])
   \<and> (\<forall>r. call i prompt style = Inr r \<longrightarrow>
      result_entry i prompt (item_outcome call style i prompt) =
        JDict [(ascii ''index'', JInt (int i + 1)),
               (ascii ''prompt'', JStr prompt),
               (ascii ''result'', JDict r)])"
  by (simp add: result_entry_def item_outcome_def error_dict_def)

lemma item_failed_explicit:
  "item_failed call style i prompt =
     (case call i prompt style of
        Inl e \<Rightarrow> True
      | Inr r \<Rightarrow> ascii ''error'' \<in> fst ` set r)"
  by (simp add: item_failed_def has_error_def split: sum.splits)

text \<open>
  C4. For a non-empty list of prompts and any behaviour of the per-item calls, the batch
  returns a summary whose counters satisfy succeeded + failed = total = number of
  prompts, none negative, where failed counts the items whose call raised or returned a
  \<open>dict\<close> with the key "error". The results hold one entry per prompt in input order:
  entry \<open>i\<close> is the \<open>dict\<close> with "index" \<open>i + 1\<close>, "prompt" the \<open>i\<close>-th prompt and
  "result" the outcome of that item, which for an item that raised is the \<open>dict\<close>
  \<open>{"error": str(e)}\<close> of the captured exception and for an item that returned is the
  returned \<open>dict\<close>. A failing item does not stop the loop: the entries of the items
  after it are there as well.
\<close>

theorem batch_counters_and_order:
  assumes "prompts \<noteq> []"
  shows "\<exists>succeeded failed rate entries.
     batch_generate_images call now prompts style =
       Inr (JDict [(ascii ''total_count'', JInt (int (length prompts))),
                   (ascii ''success_count'', JInt succeeded),
                   (ascii ''failed_count'', JInt failed),
                   (ascii ''success_rate'', JFloat (Finite rate)),
                   (ascii ''results'', JList entries),
                   (ascii ''generated_at'', JStr now)])
     \<and> succeeded + failed = int (length prompts) \<and> 0 \<le> succeeded \<and> 0 \<le> failed
     \<and> failed = int (length (filter
          (\<lambda>i. case call i (prompts ! i) style of
                 Inl e \<Rightarrow> True
               | Inr r \<Rightarrow> ascii ''error'' \<in> fst ` set r)
          [0..<length prompts]))
     \<and> length entries = length prompts
     \<and> (\<forall>i<length prompts.
            (\<forall>k m. call i (prompts ! i) style = Inl (Exn k m) \<longrightarrow>
               entries ! i =
                 JDict [(ascii ''index'', JInt (int i + 1)),
                        (ascii ''prompt'', JStr (prompts ! i)),
                        (ascii ''result'', JDict [(ascii ''error'', JStr m)])])
          \<and> (\<forall>r. call i (prompts ! i) style = Inr r \<longrightarrow>
               entries ! i =
                 JDict [(ascii ''index'', JInt (int i + 1)),
                        (ascii ''prompt'', JStr (prompts ! i)),
                        (ascii ''result'', JDict r)]))"
proof -
  let ?f = "int (length (filter (\<lambda>i. item_failed call style i (prompts ! i))
                                [0..<length prompts]))"
  let ?es = "map (\<lambda>i. result_entry i (prompts ! i) (item_outcome call style i (prompts ! i)))
                 [0..<length prompts]"
  let ?rate = "round_1 (float_mul (to_double (of_int (int (length prompts) - ?f)
                                     / of_int (int (length prompts)))) 100)"
  have run: "batch_generate_images call now prompts style =
       Inr (JDict [(ascii ''total_count'', JInt (int (length prompts))),
                   (ascii ''success_count'', JInt (int (length prompts) - ?f)),
                   (ascii ''failed_count'', JInt ?f),
                   (ascii ''success_rate'', JFloat (Finite ?rate)),
                   (ascii ''results'', JList ?es),
                   (ascii ''generated_at'', JStr now)])"
    by (simp add: batch_generate_images_nonempty [OF assms] batch_loop_from_start Let_def)
  have le: "?f \<le> int (length prompts)"
    by (rule failed_at_most_total)
  have f: "?f = int (length (filter
          (\<lambda>i. case call i (prompts ! i) style of
                 Inl e \<Rightarrow> True
               | Inr r \<Rightarrow> ascii ''error'' \<in> fst ` set r)
          [0..<length prompts]))"
    by (simp only: item_failed_explicit)
  have slots: "\<forall>i<length prompts.
            (\<forall>k m. call i (prompts ! i) style = Inl (Exn k m) \<longrightarrow>
               ?es ! i =
                 JDict [(ascii ''index'', JInt (int i + 1)),
                        (ascii ''prompt'', JStr (prompts ! i)),
                        (ascii ''result'', JDict [(ascii ''error'', JStr m)])])
          \<and> (\<forall>r. call i (prompts ! i) style = Inr r \<longrightarrow>
               ?es ! i =
                 JDict [(ascii ''index'', JInt (int i + 1)),
                        (ascii ''prompt'', JStr (prompts ! i)),
                        (ascii ''result'', JDict r)])"
  proof (intro allI impI)
    fix i assume i: "i < length prompts"
    have "?es ! i = result_entry i (prompts ! i) (item_outcome call style i (prompts ! i))"
      using i by simp
    then show "(\<forall>k m. call i (prompts ! i) style = Inl (Exn k m) \<longrightarrow>
               ?es ! i =
                 JDict [(ascii ''index'', JInt (int i + 1)),
                        (ascii ''prompt'', JStr (prompts ! i)),
                        (ascii ''result'', JDict [(ascii ''error'', JStr m)])])
          \<and> (\<forall>r. call i (prompts ! i) style = Inr r \<longrightarrow>
               ?es ! i =
                 JDict [(ascii ''index'', JInt (int i + 1)),
                        (ascii ''prompt'', JStr (prompts ! i)),
                        (ascii ''result'', JDict r)])"
      using slot_contents [of call i "prompts ! i" style] by (simp only:)
  qed
  have len: "length ?es = length prompts"
    by simp
  have sum: "(int (length prompts) - ?f) + ?f = int (length prompts)"
    by simp
  have nn: "0 \<le> int (length prompts) - ?f" "0 \<le> ?f"
    using le by simp_all
  show ?thesis
    apply (rule exI [of _ "int (length prompts) - ?f"])
    apply (rule exI [of _ ?f])
    apply (rule exI [of _ ?rate])
    apply (rule exI [of _ ?es])
    using run sum nn f slots len apply (intro conjI)
          apply assumption+
    done
qed

theorem batch_counters_and_order_witness:
  "three_prompts \<noteq> []
   \<and> (\<exists>rate.
     batch_generate_images second_raises (ascii ''t'') three_prompts (ascii ''realistic'') =
       Inr (JDict [(ascii ''total_count'', JInt 3),
                   (ascii ''success_count'', JInt 2),
                   (ascii ''failed_count'', JInt 1),
                   (ascii ''success_rate'', JFloat (Finite rate)),
                   (ascii ''results'',
                      JList [JDict [(ascii ''index'', JInt 1),
                                    (ascii ''prompt'', JStr (ascii ''cat'')),
                                    (ascii ''result'',
                                       JDict [(ascii ''image_url'', JStr (ascii ''cat''))])],
                             JDict [(ascii ''index'', JInt 2),
                                    (ascii ''prompt'', JStr (ascii ''dog'')),
                                    (ascii ''result'',
                                       JDict [(ascii ''error'', JStr (ascii ''boom''))])],
                             JDict [(ascii ''index'', JInt 3),
                                    (ascii ''prompt'', JStr (ascii ''owl'')),
                                    (ascii ''result'',
                                       JDict [(ascii ''image_url'', JStr (ascii ''owl''))])]]),
                   (ascii ''generated_at'', JStr (ascii ''t''))]))"
proof -
  have ne: "three_prompts \<noteq> []"
    by (simp add: three_prompts_def)
  have idx: "[0..<3] = [0, 1, 2]"
    by (simp add: upt_rec)
  have len3: "length three_prompts = 3"
    by (simp add: three_prompts_def)
  have c0: "second_raises 0 (three_prompts ! 0) (ascii ''realistic'') =
      Inr [(ascii ''image_url'', JStr (ascii ''cat''))]"
    by (simp add: second_raises_def three_prompts_def)
  have c1: "second_raises (Suc 0) (three_prompts ! Suc 0) (ascii ''realistic'') =
      Inl (Exn ValueError (ascii ''boom''))"
    by (simp add: second_raises_def three_prompts_def)
  have neq: "ascii ''error'' \<noteq> ascii ''image_url''"
    by (simp add: ascii_def)
  have c2: "second_raises 2 (three_prompts ! 2) (ascii ''realistic'') =
      Inr [(ascii ''image_url'', JStr (ascii ''owl''))]"
    by (simp add: second_raises_def three_prompts_def)
  have p: "three_prompts ! 0 = ascii ''cat''" "three_prompts ! Suc 0 = ascii ''dog''"
      "three_prompts ! 2 = ascii ''owl''"
    by (simp_all add: three_prompts_def)
  from batch_counters_and_order [OF ne, of second_raises "ascii ''t''" "ascii ''realistic''"]
  obtain succeeded failed rate entries where
    r: "batch_generate_images second_raises (ascii ''t'') three_prompts (ascii ''realistic'') =
       Inr (JDict [(ascii ''total_count'', JInt (int (length three_prompts))),
                   (ascii ''success_count'', JInt succeeded),
                   (ascii ''failed_count'', JInt failed),
                   (ascii ''success_rate'', JFloat (Finite rate)),
                   (ascii ''results'', JList entries),
                   (ascii ''generated_at'', JStr (ascii ''t''))])"
    and s: "succeeded + failed = int (length three_prompts)"
    and f: "failed = int (length (filter
          (\<lambda>i. case second_raises i (three_prompts ! i) (ascii ''realistic'') of
                 Inl e \<Rightarrow> True
               | Inr r \<Rightarrow> ascii ''error'' \<in> fst ` set r)
          [0..<length three_prompts]))"
    and l: "length entries = length three_prompts"
    and e: "\<forall>i<length three_prompts.
            (\<forall>k m. second_raises i (three_prompts ! i) (ascii ''realistic'') = Inl (Exn k m) \<longrightarrow>
               entries ! i =
                 JDict [(ascii ''index'', JInt (int i + 1)),
                        (ascii ''prompt'', JStr (three_prompts ! i)),
                        (ascii ''result'', JDict [(ascii ''error'', JStr m)])])
          \<and> (\<forall>r. second_raises i (three_prompts ! i) (ascii ''realistic'') = Inr r \<longrightarrow>
               entries ! i =
                 JDict [(ascii ''index'', JInt (int i + 1)),
                        (ascii ''prompt'', JStr (three_prompts ! i)),
                        (ascii ''result'', JDict r)])"
    by blast
  have f1: "failed = 1"
    using f neq by (simp add: len3 idx c0 c1 c2)
  have s2: "succeeded = 2"
    using s f1 by (simp add: len3)
  have e0: "entries ! 0 =
      JDict [(ascii ''index'', JInt 1), (ascii ''prompt'', JStr (ascii ''cat'')),
             (ascii ''result'', JDict [(ascii ''image_url'', JStr (ascii ''cat''))])]"
    using e [rule_format, of 0] c0 by (simp add: len3 p)
  have e1: "entries ! 1 =
      JDict [(ascii ''index'', JInt 2), (ascii ''prompt'', JStr (ascii ''dog'')),
             (ascii ''result'', JDict [(ascii ''error'', JStr (ascii ''boom''))])]"
    using e [rule_format, of "Suc 0"] c1 by (simp add: len3 p)
  have e2: "entries ! 2 =
      JDict [(ascii ''index'', JInt 3), (ascii ''prompt'', JStr (ascii ''owl'')),
             (ascii ''result'', JDict [(ascii ''image_url'', JStr (ascii ''owl''))])]"
    using e [rule_format, of 2] c2 by (simp add: len3 p)
  have es: "entries =
      [JDict [(ascii ''index'', JInt 1), (ascii ''prompt'', JStr (ascii ''cat'')),
              (ascii ''result'', JDict [(ascii ''image_url'', JStr (ascii ''cat''))])],
       JDict [(ascii ''index'', JInt 2), (ascii ''prompt'', JStr (ascii ''dog'')),
              (ascii ''result'', JDict [(ascii ''error'', JStr (ascii ''boom''))])],
       JDict [(ascii ''index'', JInt 3), (ascii ''prompt'', JStr (ascii ''owl'')),
              (ascii ''result'', JDict [(ascii ''image_url'', JStr (ascii ''owl''))])]]"
  proof (rule nth_equalityI)
    show "length entries = length
      [JDict [(ascii ''index'', JInt 1), (ascii ''prompt'', JStr (ascii ''cat'')),
              (ascii ''result'', JDict [(ascii ''image_url'', JStr (ascii ''cat''))])],
       JDict [(ascii ''index'', JInt 2), (ascii ''prompt'', JStr (ascii ''dog'')),
              (ascii ''result'', JDict [(ascii ''error'', JStr (ascii ''boom''))])],
       JDict [(ascii ''index'', JInt 3), (ascii ''prompt'', JStr (ascii ''owl'')),
              (ascii ''result'', JDict [(ascii ''image_url'', JStr (ascii ''owl''))])]]"
      using l by (simp add: len3)
  next
    fix i assume "i < length entries"
    then have "i = 0 \<or> i = 1 \<or> i = 2"
      using l by (auto simp: len3)
    then show "entries ! i =
      [JDict [(ascii ''index'', JInt 1), (ascii ''prompt'', JStr (ascii ''cat'')),
              (ascii ''result'', JDict [(ascii ''image_url'', JStr (ascii ''cat''))])],
       JDict [(ascii ''index'', JInt 2), (ascii ''prompt'', JStr (ascii ''dog'')),
              (ascii ''result'', JDict [(ascii ''error'', JStr (ascii ''boom''))])],
       JDict [(ascii ''index'', JInt 3), (ascii ''prompt'', JStr (ascii ''owl'')),
              (ascii ''result'', JDict [(ascii ''image_url'', JStr (ascii ''owl''))])]] ! i"
      using e0 e1 e2 by auto
  qed
  from r have "batch_generate_images second_raises (ascii ''t'') three_prompts (ascii ''realistic'') =
       Inr (JDict [(ascii ''total_count'', JInt 3),
                   (ascii ''success_count'', JInt 2),
                   (ascii ''failed_count'', JInt 1),
                   (ascii ''success_rate'', JFloat (Finite rate)),
                   (ascii ''results'', JList entries),
                   (ascii ''generated_at'', JStr (ascii ''t''))])"
    by (simp add: len3 s2 f1)
  with ne show ?thesis
    unfolding es by blast
qed

section \<open>Response parsers and pipeline operations\<close>


lemma content_fallback_keys:
  "getitem_key (content_fallback response) (ascii ''title'') =
     Inr (JStr [29983, 25104, 30340, 21338, 25991])"
  "getitem_key (content_fallback response) (ascii ''summary'') =
     Inr (JStr [21338, 25991, 25688, 35201])"
  "getitem_key (content_fallback response) (ascii ''content'') = Inr response"
  by (simp_all add: content_fallback_def ascii_def)

lemma optimization_fallback_keys:
  "getitem_key (optimization_fallback response) (ascii ''content'') = Inr response"
  "getitem_key (optimization_fallback response) (ascii ''improvements'') =
     Inr (JList [JStr [20869, 23481, 24050, 20248, 21270]])"
  "getitem_key (optimization_fallback response) (ascii ''seo_score'') = Inr (JInt 8)"
  "getitem_key (optimization_fallback response) (ascii ''readability_score'') = Inr (JInt 8)"
  by (simp_all add: optimization_fallback_def ascii_def)

lemma outline_fallback_keys:
  "getitem_key outline_fallback (ascii ''structure'') =
     Inr (JList [JDict [(ascii ''title'', JStr [20027, 35201, 20869, 23481]),
                        (ascii ''description'', JStr [22823, 32434, 20869, 23481]),
                        (ascii ''subsections'', JList [])]])"
  "getitem_key outline_fallback (ascii ''estimated_length'') =
     Inr (JStr (ascii ''2000'' @ [23383]))"
  "getitem_key outline_fallback (ascii ''key_points'') =
     Inr (JList [JStr [35201, 28857, 49], JStr [35201, 28857, 50]])"
  "getitem_key outline_fallback (ascii ''resources'') = Inr (JList [])"
  by (simp_all add: outline_fallback_def ascii_def)

lemma analysis_fallback_keys:
  "getitem_key analysis_fallback (ascii ''seo_score'') = Inr (JInt 7)"
  "getitem_key analysis_fallback (ascii ''readability_score'') = Inr (JInt 7)"
  "getitem_key analysis_fallback (ascii ''engagement_potential'') = Inr (JInt 7)"
  "getitem_key analysis_fallback (ascii ''suggestions'') =
     Inr (JList [JStr [22686, 21152, 23567, 26631, 39064],
                 JStr [28155, 21152, 20195, 30721, 31034, 20363]])"
  by (simp_all add: analysis_fallback_def ascii_def)

text \<open>
  What the parsers do guarantee: none of them raises, whatever the decoder does; when
  decoding fails each returns its fallback, in which every key of the task is present
  (the original input under "content" for the content and the optimization parser);
  when decoding succeeds the decoded value is returned as it is.
\<close>

lemma parsers_never_raise:
  "(\<exists>v. parse_content_response decode response = Inr v)
   \<and> (\<exists>v. parse_optimization_response decode response = Inr v)
   \<and> (\<exists>v. parse_outline_response decode response = Inr v)
   \<and> (\<exists>v. parse_analysis_response decode response = Inr v)"
  by (cases "json_loads decode response")
     (simp_all add: parse_content_response_def parse_optimization_response_def
        parse_outline_response_def parse_analysis_response_def)

lemma parsers_fallback_on_decode_failure:
  assumes "json_loads decode response = Inl e"
  shows "parse_content_response decode response =
           Inr (JDict [(ascii ''title'', JStr [29983, 25104, 30340, 21338, 25991]),
                       (ascii ''summary'', JStr [21338, 25991, 25688, 35201]),
                       (ascii ''content'', response)])"
    and "parse_optimization_response decode response =
           Inr (JDict [(ascii ''content'', response),
                       (ascii ''improvements'', JList [JStr [20869, 23481, 24050, 20248, 21270]]),
                       (ascii ''seo_score'', JInt 8),
                       (ascii ''readability_score'', JInt 8)])"
    and "parse_outline_response decode response = Inr outline_fallback"
    and "parse_analysis_response decode response = Inr analysis_fallback"
  using assms
  by (simp_all add: parse_content_response_def parse_optimization_response_def
        parse_outline_response_def parse_analysis_response_def content_fallback_def
        optimization_fallback_def)

lemma parsers_pass_decoded_value:
  assumes "json_loads decode response = Inr v"
  shows "parse_content_response decode response = Inr v"
    and "parse_optimization_response decode response = Inr v"
    and "parse_outline_response decode response = Inr v"
    and "parse_analysis_response decode response = Inr v"
  using assms
  by (simp_all add: parse_content_response_def parse_optimization_response_def
        parse_outline_response_def parse_analysis_response_def)

text \<open>
  C2. The claim asks that every key the task requires is present in what the parser
  returns, for every input. The code misses the case of a response that decodes but
  lacks the keys: the text \<open>{}\<close> is valid JSON, the content parser returns the decoded
  empty \<open>dict\<close> unchanged, and looking up "title", "summary" or "content" in it raises
  \<open>KeyError\<close>, which is what the caller \<open>create_blog_post\<close> does next.
\<close>

theorem parse_content_response_empty_object:
  "parse_content_response braces_decoder (JStr (ascii ''{}'')) = Inr (JDict [])
   \<and> getitem_key (JDict []) (ascii ''title'') = Inl (Exn KeyError (ascii ''title''))
   \<and> getitem_key (JDict []) (ascii ''summary'') = Inl (Exn KeyError (ascii ''summary''))
   \<and> getitem_key (JDict []) (ascii ''content'') = Inl (Exn KeyError (ascii ''content''))"
  by (simp add: parse_content_response_def json_loads_def braces_decoder_def)




end
